theory Spec2Isabelle
  imports Main
begin

section \<open>The double-entry ledger of \<^verbatim>\<open>main.py\<close>\<close>

text \<open>
  The class \<^verbatim>\<open>DoubleEntryLedger\<close> keeps a list of transactions and a dictionary of
  balances. Account identifiers and descriptions are Python strings, modelled as
  \<^typ>\<open>string\<close>. The methods apply \<^verbatim>\<open>-\<close> and \<^verbatim>\<open>+\<close> to whatever number is passed as
  amount, so the ledger is modelled for any type of amounts \<open>'a\<close> with a zero, an addition and
  a subtraction. Two such types are given: Python's integers, as in the demo, which are
  \<^typ>\<open>int\<close>, and Python's floats, modelled below. A ledger holds amounts of one of the two
  types; the integer 0 that the methods start from is converted to that type without loss.
  A ledger that mixes the two, where Python converts the integer operand to a float and
  raises \<^verbatim>\<open>OverflowError\<close> when it is too large for one, is not modelled.
  The text written by \<^verbatim>\<open>print\<close> is not part of the ledger and is left out, except where
  producing it reads the dictionary with a subscript, which can raise; writing to the
  standard output is taken to succeed.
\<close>

subsection \<open>Python dictionaries, in insertion order\<close>

text \<open>
  A \<^verbatim>\<open>dict\<close> enumerates its keys in the order of their first insertion; assigning to a
  key that is present replaces the value where it stands. An association list read from the
  front is that dictionary. The keys of a dictionary are distinct; the operations below
  read and write the first entry of a key, so on a list with a repeated key they act as on
  the dictionary of its first entries, and they never build such a list from one without.
\<close>

type_synonym ('k, 'v) dict = "('k \<times> 'v) list"

datatype error = KeyError string

text \<open>\<^verbatim>\<open>d.get(k, default)\<close>\<close>

fun dict_get :: "('k, 'v) dict \<Rightarrow> 'k \<Rightarrow> 'v \<Rightarrow> 'v" where
  "dict_get [] k dflt = dflt"
| "dict_get ((k', v) # kvs) k dflt = (if k' = k then v else dict_get kvs k dflt)"

text \<open>\<^verbatim>\<open>d[k]\<close> as an expression: raises \<^verbatim>\<open>KeyError\<close> on a missing key.\<close>

fun dict_getitem :: "(string, 'v) dict \<Rightarrow> string \<Rightarrow> error + 'v" where
  "dict_getitem [] k = Inl (KeyError k)"
| "dict_getitem ((k', v) # kvs) k = (if k' = k then Inr v else dict_getitem kvs k)"

text \<open>\<^verbatim>\<open>d[k] = v\<close>\<close>

fun dict_set :: "('k, 'v) dict \<Rightarrow> 'k \<Rightarrow> 'v \<Rightarrow> ('k, 'v) dict" where
  "dict_set [] k v = [(k, v)]"
| "dict_set ((k', v') # kvs) k v =
     (if k' = k then (k', v) # kvs else (k', v') # dict_set kvs k v)"

definition dict_keys :: "('k, 'v) dict \<Rightarrow> 'k list" where
  "dict_keys d = map fst d"

definition dict_values :: "('k, 'v) dict \<Rightarrow> 'v list" where
  "dict_values d = map snd d"

definition dict_items :: "('k, 'v) dict \<Rightarrow> ('k \<times> 'v) list" where
  "dict_items d = d"

text \<open>The builtin \<^verbatim>\<open>sum\<close>: starts from 0 and adds from the left.\<close>

definition py_sum :: "'a::{zero,plus} list \<Rightarrow> 'a" where
  "py_sum xs = foldl (+) 0 xs"

subsection \<open>Python floats\<close>

text \<open>
  A Python \<^verbatim>\<open>float\<close> is an IEEE 754 binary64 number. \<open>Finite m e\<close> is the number
  \<open>m * 2 ^ e\<close>, kept in the one form the format gives it: \<open>2 ^ 52 \<le> \<bar>m\<bar> < 2 ^ 53\<close> with
  \<open>- 1074 \<le> e \<le> 971\<close> (normal), or \<open>0 < \<bar>m\<bar> < 2 ^ 52\<close> with \<open>e = - 1074\<close> (subnormal), or
  \<open>Finite 0 0\<close> for zero, so that two finite floats are the same value exactly when they
  compare equal in Python. The two zeros of the format, which compare equal, are one value
  here. \<^verbatim>\<open>nan\<close> compares unequal to itself in Python; no statement below compares it.
\<close>

datatype pyfloat = Finite int int | PosInf | NegInf | NaN

text \<open>The number of binary digits of a positive integer.\<close>

function bit_length :: "int \<Rightarrow> nat" where
  "bit_length n = (if n \<le> 0 then 0 else Suc (bit_length (n div 2)))"
  by pat_completeness auto
termination
  by (relation "measure nat") auto

declare bit_length.simps [simp del]

text \<open>
  \<open>n / 2 ^ s\<close> rounded to the nearest integer, a tie going to the even one, for \<open>n \<ge> 0\<close>.
\<close>

definition round_half_even :: "int \<Rightarrow> nat \<Rightarrow> int" where
  "round_half_even n s =
     (let q = n div 2 ^ s; r = n mod 2 ^ s; half = 2 ^ (s - 1)
      in if s = 0 then n
         else if half < r \<or> (r = half \<and> odd q) then q + 1 else q)"

text \<open>
  The float nearest to the exact number \<open>m * 2 ^ e\<close> (round to nearest, ties to even, the
  rounding of every arithmetic operation): \<open>top\<close> is the exponent of the leading binary
  digit and \<open>ulp\<close> that of the last digit the format keeps for a number of this size. A
  number of magnitude \<open>2 ^ 1024\<close> or more after rounding is an infinity.
\<close>

definition round_float :: "int \<Rightarrow> int \<Rightarrow> pyfloat" where
  "round_float m e =
     (let n = \<bar>m\<bar>;
          top = int (bit_length n) - 1 + e;
          ulp = max (top - 52) (- 1074);
          q = (if ulp \<le> e then n * 2 ^ nat (e - ulp) else round_half_even n (nat (ulp - e)));
          q' = (if q = 2 ^ 53 then 2 ^ 52 else q);
          ulp' = (if q = 2 ^ 53 then ulp + 1 else ulp)
      in if q' = 0 then Finite 0 0
         else if 971 < ulp' then (if m < 0 then NegInf else PosInf)
         else Finite (if m < 0 then - q' else q') ulp')"

text \<open>Negation is exact.\<close>

fun float_neg :: "pyfloat \<Rightarrow> pyfloat" where
  "float_neg (Finite m e) = Finite (- m) e"
| "float_neg PosInf = NegInf"
| "float_neg NegInf = PosInf"
| "float_neg NaN = NaN"

text \<open>
  \<^verbatim>\<open>x + y\<close>: the exact sum of two finite floats, rounded. It raises no exception: a sum
  out of range is an infinity, and the sum of the two infinities is \<^verbatim>\<open>nan\<close>.
\<close>

fun float_add :: "pyfloat \<Rightarrow> pyfloat \<Rightarrow> pyfloat" where
  "float_add (Finite m1 e1) (Finite m2 e2) =
     (let e = min e1 e2
      in round_float (m1 * 2 ^ nat (e1 - e) + m2 * 2 ^ nat (e2 - e)) e)"
| "float_add NaN y = NaN"
| "float_add x NaN = NaN"
| "float_add PosInf NegInf = NaN"
| "float_add NegInf PosInf = NaN"
| "float_add PosInf y = PosInf"
| "float_add NegInf y = NegInf"
| "float_add x PosInf = PosInf"
| "float_add x NegInf = NegInf"

text \<open>\<^verbatim>\<open>x - y\<close> is \<^verbatim>\<open>x + (-y)\<close>.\<close>

definition float_sub :: "pyfloat \<Rightarrow> pyfloat \<Rightarrow> pyfloat" where
  "float_sub x y = float_add x (float_neg y)"

text \<open>
  The float literal of an integral value: \<^verbatim>\<open>1.0\<close> is \<open>float_of_int 1\<close> and
  \<^verbatim>\<open>1e16\<close> is \<open>float_of_int (10 ^ 16)\<close>.
\<close>

definition float_of_int :: "int \<Rightarrow> pyfloat" where
  "float_of_int n = round_float n 0"

text \<open>The zero, \<^verbatim>\<open>+\<close> and \<^verbatim>\<open>-\<close> of floats.\<close>

instantiation pyfloat :: "{zero, plus, minus}"
begin

definition zero_pyfloat :: pyfloat where
  "zero_pyfloat = Finite 0 0"

definition plus_pyfloat :: "pyfloat \<Rightarrow> pyfloat \<Rightarrow> pyfloat" where
  "plus_pyfloat x y = float_add x y"

definition minus_pyfloat :: "pyfloat \<Rightarrow> pyfloat \<Rightarrow> pyfloat" where
  "minus_pyfloat x y = float_sub x y"

instance ..

end

subsection \<open>The ledger\<close>

text \<open>
  A transaction is the dictionary with the keys \<^verbatim>\<open>'description'\<close>, \<^verbatim>\<open>'from'\<close>,
  \<^verbatim>\<open>'to'\<close> and \<^verbatim>\<open>'amount'\<close> built by \<^verbatim>\<open>record_transfer\<close>; the fields are
  named after the way the source reads them, \<^verbatim>\<open>t['from']\<close>.
\<close>

record 'a transaction =
  t_description :: string
  t_from :: string
  t_to :: string
  t_amount :: 'a

record 'a ledger =
  transactions :: "'a transaction list"
  balances :: "(string, 'a) dict"

text \<open>\<^verbatim>\<open>__init__\<close>: the value of \<^verbatim>\<open>DoubleEntryLedger()\<close>.\<close>

definition DoubleEntryLedger :: "'a ledger" where
  "DoubleEntryLedger = \<lparr>transactions = [], balances = []\<rparr>"

text \<open>
  \<^verbatim>\<open>record_transfer\<close> appends the transaction, then assigns the two balances in turn (the
  second assignment reads the dictionary the first one has written). The two
  \<^verbatim>\<open>print\<close> calls that follow evaluate \<^verbatim>\<open>self.balances[from_account]\<close> and
  \<^verbatim>\<open>self.balances[to_account]\<close>, the only expressions of the method that can raise. An
  exception there would leave the record appended and the balances written; the result
  \<open>Inl\<close> carries the exception alone.
\<close>

definition record_transfer ::
  "'a::{zero,plus,minus} ledger \<Rightarrow> string \<Rightarrow> string \<Rightarrow> string \<Rightarrow> 'a \<Rightarrow> error + 'a ledger"
  where
  "record_transfer self description from_account to_account amount =
     (let transaction = \<lparr>t_description = description, t_from = from_account,
                         t_to = to_account, t_amount = amount\<rparr>;
          s1 = self\<lparr>transactions := transactions self @ [transaction]\<rparr>;
          s2 = s1\<lparr>balances :=
                 dict_set (balances s1) from_account
                   (dict_get (balances s1) from_account 0 - amount)\<rparr>;
          s3 = s2\<lparr>balances :=
                 dict_set (balances s2) to_account
                   (dict_get (balances s2) to_account 0 + amount)\<rparr>
      in case dict_getitem (balances s3) from_account of
           Inl e \<Rightarrow> Inl e
         | Inr now_from \<Rightarrow>
             (case dict_getitem (balances s3) to_account of
                Inl e \<Rightarrow> Inl e
              | Inr now_to \<Rightarrow> Inr s3))"

text \<open>
  The reading methods take the ledger and return their result with the ledger they leave
  behind. \<^verbatim>\<open>print_balances\<close> returns nothing in Python; its result here is the sequence of
  (account, balance) pairs it prints, one line each, in the order of the loop.
\<close>

definition get_balance :: "'a::zero ledger \<Rightarrow> string \<Rightarrow> 'a \<times> 'a ledger" where
  "get_balance self account = (dict_get (balances self) account 0, self)"

definition print_balances :: "'a ledger \<Rightarrow> (string \<times> 'a) list \<times> 'a ledger" where
  "print_balances self =
     (map (\<lambda>(account, balance). (account, balance)) (dict_items (balances self)), self)"

definition verify_conservation :: "'a::{zero,plus} ledger \<Rightarrow> 'a \<times> 'a ledger" where
  "verify_conservation self = (let total = py_sum (dict_values (balances self)) in (total, self))"

text \<open>
  The figures \<^verbatim>\<open>print_dynamic_verification\<close> computes for one account from the
  transaction list alone.
\<close>

definition gained :: "'a::{zero,plus} ledger \<Rightarrow> string \<Rightarrow> 'a" where
  "gained ledger account =
     py_sum (map t_amount (filter (\<lambda>t. t_to t = account) (transactions ledger)))"

definition lost :: "'a::{zero,plus} ledger \<Rightarrow> string \<Rightarrow> 'a" where
  "lost ledger account =
     py_sum (map t_amount (filter (\<lambda>t. t_from t = account) (transactions ledger)))"

definition expected :: "'a::{zero,plus,minus} ledger \<Rightarrow> string \<Rightarrow> 'a" where
  "expected ledger account = 0 + gained ledger account - lost ledger account"

text \<open>
  A caller is a sequence of \<^verbatim>\<open>record_transfer\<close> calls on one ledger, as the demo makes
  them; an exception ends it.
\<close>

type_synonym 'a call = "string \<times> string \<times> string \<times> 'a"

fun record_transfers :: "'a::{zero,plus,minus} ledger \<Rightarrow> 'a call list \<Rightarrow> error + 'a ledger"
  where
  "record_transfers self [] = Inr self"
| "record_transfers self ((description, from_account, to_account, amount) # calls) =
     (case record_transfer self description from_account to_account amount of
        Inl e \<Rightarrow> Inl e
      | Inr self' \<Rightarrow> record_transfers self' calls)"

subsection \<open>First-seen order\<close>

text \<open>
  The accounts a transaction list names, in the order the transfers name them, the source
  of a transfer before its destination (the order in which
  \<^verbatim>\<open>print_dynamic_verification\<close> adds them to its set of accounts).
\<close>

fun referenced :: "'a transaction list \<Rightarrow> string list" where
  "referenced [] = []"
| "referenced (t # ts) = t_from t # t_to t # referenced ts"

text \<open>The transaction a call records.\<close>

fun call_transaction :: "'a call \<Rightarrow> 'a transaction" where
  "call_transaction (description, from_account, to_account, amount) =
     \<lparr>t_description = description, t_from = from_account,
      t_to = to_account, t_amount = amount\<rparr>"

text \<open>
  First-seen order, in the words of the specification: every element once, at the place
  of its first occurrence.
\<close>

fun first_seen :: "'a list \<Rightarrow> 'a list" where
  "first_seen [] = []"
| "first_seen (x # xs) = x # filter (\<lambda>y. y \<noteq> x) (first_seen xs)"

text \<open>
  The position of the first occurrence of an element, counted from 0; the length of the
  list when the element does not occur.
\<close>

fun first_index :: "'a list \<Rightarrow> 'a \<Rightarrow> nat" where
  "first_index [] x = 0"
| "first_index (y # ys) x = (if y = x then 0 else Suc (first_index ys x))"


section \<open>Properties\<close>

subsection \<open>Dictionary lemmas\<close>

lemma py_sum_acc: "foldl (+) a xs = a + sum_list xs" for a :: int
  by (induction xs arbitrary: a) simp_all

lemma py_sum_sum_list: "py_sum xs = sum_list xs" for xs :: "int list"
  by (simp add: py_sum_def py_sum_acc)

lemma dict_get_dict_set:
  "dict_get (dict_set d k v) k' dflt = (if k' = k then v else dict_get d k' dflt)"
  by (induction d) auto

lemma dict_getitem_dict_set:
  "dict_getitem (dict_set d k v) k' = (if k' = k then Inr v else dict_getitem d k')"
  by (induction d) auto

lemma sum_values_dict_set:
  "sum_list (dict_values (dict_set d k v)) = sum_list (dict_values d) - dict_get d k 0 + v"
  for d :: "('k, int) dict"
  by (induction d) (auto simp: dict_values_def)

lemma dict_keys_dict_set_present:
  "k \<in> set (dict_keys d) \<Longrightarrow> dict_keys (dict_set d k v) = dict_keys d"
  by (induction d) (force simp: dict_keys_def)+

lemma dict_keys_dict_set_absent:
  "k \<notin> set (dict_keys d) \<Longrightarrow> dict_keys (dict_set d k v) = dict_keys d @ [k]"
  by (induction d) (auto simp: dict_keys_def)

lemma dict_keys_dict_set:
  "dict_keys (dict_set d k v) =
     (if k \<in> set (dict_keys d) then dict_keys d else dict_keys d @ [k])"
  by (simp add: dict_keys_dict_set_present dict_keys_dict_set_absent)

lemma distinct_dict_keys_dict_set:
  "distinct (dict_keys d) \<Longrightarrow> distinct (dict_keys (dict_set d k v))"
  by (simp add: dict_keys_dict_set)

lemma set_dict_keys_dict_set:
  "set (dict_keys (dict_set d k v)) = insert k (set (dict_keys d))"
  by (auto simp: dict_keys_dict_set)

lemma dict_get_absent:
  "k \<notin> set (dict_keys d) \<Longrightarrow> dict_get d k dflt = dflt"
  by (induction d) (auto simp: dict_keys_def)

lemma dict_get_in_items:
  "k \<in> set (dict_keys d) \<Longrightarrow> (k, dict_get d k dflt) \<in> set d"
  by (induction d) (force simp: dict_keys_def)+

lemma items_get:
  "((k, dict_get d k dflt) \<in> set d) = (k \<in> set (dict_keys d))"
proof
  assume "(k, dict_get d k dflt) \<in> set d"
  then have "fst (k, dict_get d k dflt) \<in> fst ` set d" by (rule imageI)
  then show "k \<in> set (dict_keys d)" by (simp add: dict_keys_def)
next
  assume "k \<in> set (dict_keys d)"
  then show "(k, dict_get d k dflt) \<in> set d" by (rule dict_get_in_items)
qed

subsection \<open>Lemmas on first-seen order\<close>

lemma set_referenced: "set (referenced ts) = t_from ` set ts \<union> t_to ` set ts"
  by (induction ts) auto

lemma referenced_append: "referenced (ts @ ts') = referenced ts @ referenced ts'"
  by (induction ts) simp_all

lemma set_first_seen: "set (first_seen xs) = set xs"
  by (induction xs) auto

lemma distinct_first_seen: "distinct (first_seen xs)"
  by (induction xs) (auto simp: set_first_seen)

lemma first_seen_snoc:
  "first_seen (xs @ [x]) = (if x \<in> set xs then first_seen xs else first_seen xs @ [x])"
  by (induction xs) (auto simp: set_first_seen)

lemma first_seen_snoc2:
  "first_seen (xs @ [x, y]) =
     (if y \<in> set xs \<or> y = x
      then (if x \<in> set xs then first_seen xs else first_seen xs @ [x])
      else (if x \<in> set xs then first_seen xs else first_seen xs @ [x]) @ [y])"
  using first_seen_snoc [of "xs @ [x]" y] by (simp add: first_seen_snoc)

lemma first_index_filter:
  "x \<noteq> a \<Longrightarrow> y \<noteq> a \<Longrightarrow>
   (first_index (filter (\<lambda>z. z \<noteq> a) zs) x < first_index (filter (\<lambda>z. z \<noteq> a) zs) y) =
   (first_index zs x < first_index zs y)"
  by (induction zs) auto

lemma first_index_first_seen:
  "(first_index (first_seen xs) x < first_index (first_seen xs) y) =
   (first_index xs x < first_index xs y)"
  by (induction xs) (auto simp: first_index_filter)

subsection \<open>The effect of one call\<close>

lemma record_transfer_effect:
  "record_transfer self description from_account to_account amount =
     Inr \<lparr>transactions = transactions self @
             [\<lparr>t_description = description, t_from = from_account,
               t_to = to_account, t_amount = amount\<rparr>],
          balances =
            dict_set
              (dict_set (balances self) from_account
                 (dict_get (balances self) from_account 0 - amount))
              to_account
              (dict_get
                 (dict_set (balances self) from_account
                    (dict_get (balances self) from_account 0 - amount))
                 to_account 0 + amount)\<rparr>"
  by (simp add: record_transfer_def Let_def dict_getitem_dict_set)

lemma record_transfer_returns:
  "\<exists>self'. record_transfer self description from_account to_account amount = Inr self'"
  by (simp add: record_transfer_effect)

lemma record_transfer_sum:
  "record_transfer self description from_account to_account amount = Inr self' \<Longrightarrow>
   sum_list (dict_values (balances self')) = sum_list (dict_values (balances self))"
  for self :: "int ledger"
  by (auto simp: record_transfer_effect sum_values_dict_set)

lemma record_transfer_balance:
  "record_transfer self description from_account to_account amount = Inr self' \<Longrightarrow>
   dict_get (balances self') account 0 =
     dict_get (balances self) account 0
       + (if to_account = account then amount else 0)
       - (if from_account = account then amount else 0)"
  for self :: "int ledger"
  by (auto simp: record_transfer_effect dict_get_dict_set)

lemma record_transfer_transactions:
  "record_transfer self description from_account to_account amount = Inr self' \<Longrightarrow>
   transactions self' = transactions self @
     [\<lparr>t_description = description, t_from = from_account,
       t_to = to_account, t_amount = amount\<rparr>]"
  by (auto simp: record_transfer_effect)

lemma record_transfer_other:
  "record_transfer self description from_account to_account amount = Inr self' \<Longrightarrow>
   account \<noteq> from_account \<Longrightarrow> account \<noteq> to_account \<Longrightarrow>
   dict_getitem (balances self') account = dict_getitem (balances self) account \<and>
   dict_get (balances self') account 0 = dict_get (balances self) account 0"
  by (auto simp: record_transfer_effect dict_getitem_dict_set dict_get_dict_set)

lemma record_transfer_keys:
  "record_transfer self description from_account to_account amount = Inr self' \<Longrightarrow>
   set (dict_keys (balances self')) =
     set (dict_keys (balances self)) \<union> {from_account, to_account}"
  by (auto simp: record_transfer_effect set_dict_keys_dict_set)

subsection \<open>Sequences of calls\<close>

lemma record_transfers_total: "\<exists>self'. record_transfers self calls = Inr self'"
  by (induction self calls rule: record_transfers.induct)
     (auto simp: record_transfer_effect)

text \<open>A property that every call preserves holds after any sequence of calls.\<close>

lemma record_transfers_invariant:
  assumes "P self"
      and "\<And>s description from_account to_account amount s'.
             P s \<Longrightarrow>
             record_transfer s description from_account to_account amount = Inr s' \<Longrightarrow> P s'"
      and "record_transfers self calls = Inr self'"
  shows "P self'"
  using assms(1,3)
proof (induction self calls rule: record_transfers.induct)
  case (1 self)
  then show ?case by simp
next
  case (2 self description from_account to_account amount calls)
  obtain s where s: "record_transfer self description from_account to_account amount = Inr s"
    using record_transfer_returns by blast
  have rest: "record_transfers s calls = Inr self'"
    using "2.prems"(2) s by simp
  have "P s"
    using "2.prems"(1) s by (rule assms(2))
  with s show ?case
    using rest by (rule "2.IH")
qed

lemma record_transfers_sum:
  fixes self :: "int ledger"
  assumes "record_transfers self calls = Inr self'"
  shows "sum_list (dict_values (balances self')) = sum_list (dict_values (balances self))"
proof -
  let ?P = "\<lambda>s. sum_list (dict_values (balances s)) = sum_list (dict_values (balances self))"
  have "?P self" by simp
  then show "?P self'"
    using _ assms by (rule record_transfers_invariant) (simp add: record_transfer_sum)
qed

lemma record_transfers_transactions:
  "record_transfers self calls = Inr self' \<Longrightarrow>
   transactions self' = transactions self @ map call_transaction calls"
proof (induction self calls arbitrary: self' rule: record_transfers.induct)
  case (1 self)
  then show ?case by simp
next
  case (2 self description from_account to_account amount calls)
  obtain s where s: "record_transfer self description from_account to_account amount = Inr s"
    using record_transfer_returns by blast
  have rest: "record_transfers s calls = Inr self'"
    using "2.prems" s by simp
  have "transactions self' = transactions s @ map call_transaction calls"
    using s rest by (rule "2.IH")
  then show ?case
    by (simp add: record_transfer_transactions [OF s])
qed

lemma record_transfers_keys_grow:
  assumes "record_transfers self calls = Inr self'"
  shows "set (dict_keys (balances self)) \<subseteq> set (dict_keys (balances self'))"
proof -
  let ?P = "\<lambda>s. set (dict_keys (balances self)) \<subseteq> set (dict_keys (balances s))"
  have step: "?P s'"
    if "?P s" and "record_transfer s description from_account to_account amount = Inr s'"
    for s description from_account to_account amount s'
    using that(1) record_transfer_keys [OF that(2)] by blast
  have "?P self" by simp
  then show "?P self'"
    using step assms by (rule record_transfers_invariant)
qed

lemma reconstruction_step:
  fixes s :: "int ledger"
  assumes "\<forall>account. dict_get (balances s) account 0 = gained s account - lost s account"
      and "record_transfer s description from_account to_account amount = Inr s'"
  shows "\<forall>account. dict_get (balances s') account 0 = gained s' account - lost s' account"
  using assms(1)
  by (auto simp: record_transfer_balance [OF assms(2)] record_transfer_transactions [OF assms(2)]
      gained_def lost_def py_sum_sum_list)

lemma reachable_reconstruction:
  fixes self :: "int ledger"
  assumes "record_transfers DoubleEntryLedger calls = Inr self"
  shows "dict_get (balances self) account 0 = gained self account - lost self account"
proof -
  let ?P = "\<lambda>s :: int ledger.
    \<forall>account. dict_get (balances s) account 0 = gained s account - lost s account"
  have "?P DoubleEntryLedger"
    by (simp add: DoubleEntryLedger_def gained_def lost_def py_sum_def)
  then have "?P self"
    using reconstruction_step assms by (rule record_transfers_invariant)
  then show ?thesis by simp
qed

lemma keys_step:
  assumes "dict_keys (balances s) = first_seen (referenced (transactions s))"
      and "record_transfer s description from_account to_account amount = Inr s'"
  shows "dict_keys (balances s') = first_seen (referenced (transactions s'))"
proof -
  have refs: "referenced (transactions s') =
      referenced (transactions s) @ [from_account, to_account]"
    using assms(2) by (auto simp: record_transfer_effect referenced_append)
  have "dict_keys (balances s') =
      (if to_account \<in> set (dict_keys (balances s)) \<or> to_account = from_account
       then (if from_account \<in> set (dict_keys (balances s)) then dict_keys (balances s)
             else dict_keys (balances s) @ [from_account])
       else (if from_account \<in> set (dict_keys (balances s)) then dict_keys (balances s)
             else dict_keys (balances s) @ [from_account]) @ [to_account])"
    using assms(2) by (auto simp: record_transfer_effect dict_keys_dict_set)
  then show ?thesis
    unfolding refs first_seen_snoc2 assms(1) set_first_seen .
qed

lemma reachable_keys:
  assumes "record_transfers DoubleEntryLedger calls = Inr self"
  shows "dict_keys (balances self) = first_seen (referenced (transactions self))"
proof -
  let ?P = "\<lambda>s. dict_keys (balances s) = first_seen (referenced (transactions s))"
  have "?P DoubleEntryLedger"
    by (simp add: DoubleEntryLedger_def dict_keys_def)
  then show "?P self"
    using keys_step assms by (rule record_transfers_invariant)
qed

lemma print_balances_keys: "map fst (fst (print_balances self)) = dict_keys (balances self)"
  by (simp add: print_balances_def dict_items_def dict_keys_def)

section \<open>The claims\<close>

subsection \<open>Conservation\<close>

text \<open>
  Claim C1, amended. Start from a fresh ledger and make any sequence of
  \<^verbatim>\<open>record_transfer\<close> calls, with any descriptions, any accounts and any integer amounts.
  After each call (after the first \<open>n\<close> calls, for every \<open>n\<close>) no exception has been raised
  and \<^verbatim>\<open>verify_conservation()\<close> returns 0: the values of the balance dictionary sum to 0.
\<close>

theorem conservation_after_every_call:
  "\<exists>self. record_transfers (DoubleEntryLedger :: int ledger) (take n calls) = Inr self \<and>
          fst (verify_conservation self) = 0 \<and>
          sum_list (dict_values (balances self)) = 0"
proof -
  obtain self where self: "record_transfers DoubleEntryLedger (take n calls) = Inr self"
    using record_transfers_total by blast
  have "sum_list (dict_values (balances self)) = 0"
    using record_transfers_sum [OF self] by (simp add: DoubleEntryLedger_def dict_values_def)
  then show ?thesis
    using self by (simp add: verify_conservation_def py_sum_sum_list)
qed

text \<open>
  With float amounts the sum is not always 0. A fresh ledger records a transfer of
  \<^verbatim>\<open>1e16\<close> from A to B and a transfer of \<^verbatim>\<open>1.0\<close> from B to C: the balance of B stays
  \<^verbatim>\<open>1e16\<close>, since \<^verbatim>\<open>1e16 - 1.0\<close> rounds to \<^verbatim>\<open>1e16\<close>, and
  \<^verbatim>\<open>verify_conservation()\<close> returns \<^verbatim>\<open>1.0\<close>.
\<close>

theorem float_amounts_break_conservation:
  "record_transfers DoubleEntryLedger
     [(''out'', ''A'', ''B'', float_of_int (10 ^ 16)), (''on'', ''B'', ''C'', float_of_int 1)] =
     Inr \<lparr>transactions =
            [\<lparr>t_description = ''out'', t_from = ''A'', t_to = ''B'',
              t_amount = float_of_int (10 ^ 16)\<rparr>,
             \<lparr>t_description = ''on'', t_from = ''B'', t_to = ''C'',
              t_amount = float_of_int 1\<rparr>],
          balances =
            [(''A'', float_of_int (- (10 ^ 16))), (''B'', float_of_int (10 ^ 16)),
             (''C'', float_of_int 1)]\<rparr> \<and>
   fst (verify_conservation
     \<lparr>transactions =
        [\<lparr>t_description = ''out'', t_from = ''A'', t_to = ''B'',
          t_amount = float_of_int (10 ^ 16)\<rparr>,
         \<lparr>t_description = ''on'', t_from = ''B'', t_to = ''C'',
          t_amount = float_of_int 1\<rparr>],
      balances =
        [(''A'', float_of_int (- (10 ^ 16))), (''B'', float_of_int (10 ^ 16)),
         (''C'', float_of_int 1)]\<rparr>) = float_of_int 1 \<and>
   float_of_int 1 \<noteq> (0 :: pyfloat)"
  by code_simp

subsection \<open>Balance reconstruction\<close>

text \<open>
  Claim C2, amended. In every ledger reached from a fresh one by \<^verbatim>\<open>record_transfer\<close>
  calls with integer amounts, and for every account, \<^verbatim>\<open>get_balance\<close> returns the sum of the amounts of the recorded
  transfers into the account minus the sum of the amounts of the recorded transfers out of
  it: the figure \<^verbatim>\<open>expected\<close> that \<^verbatim>\<open>print_dynamic_verification\<close> derives from the
  history.
\<close>

theorem balance_reconstruction:
  "\<exists>self. record_transfers (DoubleEntryLedger :: int ledger) (take n calls) = Inr self \<and>
          fst (get_balance self account) =
            sum_list (map t_amount (filter (\<lambda>t. t_to t = account) (transactions self)))
              - sum_list (map t_amount (filter (\<lambda>t. t_from t = account) (transactions self))) \<and>
          fst (get_balance self account) = expected self account"
proof -
  obtain self where self: "record_transfers DoubleEntryLedger (take n calls) = Inr self"
    using record_transfers_total by blast
  show ?thesis
    using self reachable_reconstruction [OF self, of account]
    by (simp add: get_balance_def expected_def gained_def lost_def py_sum_sum_list)
qed

text \<open>
  With float amounts the balance can differ from the figure derived from the history. A
  fresh ledger records \<^verbatim>\<open>1e16\<close> from X to A, \<^verbatim>\<open>1e16\<close> from A to Y and
  \<^verbatim>\<open>1.0\<close> from X to A. The balance of A is \<^verbatim>\<open>1.0\<close>; the amounts it gained sum to
  \<^verbatim>\<open>1e16\<close>, since \<^verbatim>\<open>1e16 + 1.0\<close> rounds to \<^verbatim>\<open>1e16\<close>, the amounts it lost sum
  to \<^verbatim>\<open>1e16\<close>, and the expected figure is 0.
\<close>

theorem float_amounts_break_reconstruction:
  "record_transfers DoubleEntryLedger
     [(''in'', ''X'', ''A'', float_of_int (10 ^ 16)),
      (''out'', ''A'', ''Y'', float_of_int (10 ^ 16)),
      (''drop'', ''X'', ''A'', float_of_int 1)] =
     Inr \<lparr>transactions =
            [\<lparr>t_description = ''in'', t_from = ''X'', t_to = ''A'',
              t_amount = float_of_int (10 ^ 16)\<rparr>,
             \<lparr>t_description = ''out'', t_from = ''A'', t_to = ''Y'',
              t_amount = float_of_int (10 ^ 16)\<rparr>,
             \<lparr>t_description = ''drop'', t_from = ''X'', t_to = ''A'',
              t_amount = float_of_int 1\<rparr>],
          balances =
            [(''X'', float_of_int (- (10 ^ 16))), (''A'', float_of_int 1),
             (''Y'', float_of_int (10 ^ 16))]\<rparr> \<and>
   fst (get_balance
     \<lparr>transactions =
        [\<lparr>t_description = ''in'', t_from = ''X'', t_to = ''A'',
          t_amount = float_of_int (10 ^ 16)\<rparr>,
         \<lparr>t_description = ''out'', t_from = ''A'', t_to = ''Y'',
          t_amount = float_of_int (10 ^ 16)\<rparr>,
         \<lparr>t_description = ''drop'', t_from = ''X'', t_to = ''A'',
          t_amount = float_of_int 1\<rparr>],
      balances =
        [(''X'', float_of_int (- (10 ^ 16))), (''A'', float_of_int 1),
         (''Y'', float_of_int (10 ^ 16))]\<rparr> ''A'') = float_of_int 1 \<and>
   expected
     \<lparr>transactions =
        [\<lparr>t_description = ''in'', t_from = ''X'', t_to = ''A'',
          t_amount = float_of_int (10 ^ 16)\<rparr>,
         \<lparr>t_description = ''out'', t_from = ''A'', t_to = ''Y'',
          t_amount = float_of_int (10 ^ 16)\<rparr>,
         \<lparr>t_description = ''drop'', t_from = ''X'', t_to = ''A'',
          t_amount = float_of_int 1\<rparr>],
      balances =
        [(''X'', float_of_int (- (10 ^ 16))), (''A'', float_of_int 1),
         (''Y'', float_of_int (10 ^ 16))]\<rparr> ''A'' = 0 \<and>
   float_of_int 1 \<noteq> (0 :: pyfloat)"
  by code_simp

subsection \<open>The four-transfer scenario\<close>

text \<open>
  Claim C3. From an empty ledger: after the fill of 100 from Reservoir to TankA the
  balances are -100 and 100; after the move of 30 from TankA to TankB they are 70 and 30;
  after the pump of 20 from Pump to TankA, TankA holds 90 and Pump -20; after the leak of 5
  from TankB to Environment, TankB holds 25 and Environment 5, and the five balances sum
  to 0. \<^verbatim>\<open>verify_conservation()\<close> returns 0 after each of the four calls.
\<close>

theorem four_transfer_scenario:
  "\<exists>l1 l2 l3 l4.
     record_transfer (DoubleEntryLedger :: int ledger) ''fill'' ''Reservoir'' ''TankA'' 100 =
       Inr l1 \<and>
     fst (get_balance l1 ''Reservoir'') = - 100 \<and>
     fst (get_balance l1 ''TankA'') = 100 \<and>
     fst (verify_conservation l1) = 0 \<and>
     record_transfer l1 ''move'' ''TankA'' ''TankB'' 30 = Inr l2 \<and>
     fst (get_balance l2 ''TankA'') = 70 \<and>
     fst (get_balance l2 ''TankB'') = 30 \<and>
     fst (verify_conservation l2) = 0 \<and>
     record_transfer l2 ''pump'' ''Pump'' ''TankA'' 20 = Inr l3 \<and>
     fst (get_balance l3 ''TankA'') = 90 \<and>
     fst (get_balance l3 ''Pump'') = - 20 \<and>
     fst (verify_conservation l3) = 0 \<and>
     record_transfer l3 ''leak'' ''TankB'' ''Environment'' 5 = Inr l4 \<and>
     fst (get_balance l4 ''TankB'') = 25 \<and>
     fst (get_balance l4 ''Environment'') = 5 \<and>
     fst (get_balance l4 ''Reservoir'') + fst (get_balance l4 ''TankA'') +
       fst (get_balance l4 ''TankB'') + fst (get_balance l4 ''Pump'') +
       fst (get_balance l4 ''Environment'') = 0 \<and>
     fst (verify_conservation l4) = 0"
  by (simp add: record_transfer_effect DoubleEntryLedger_def get_balance_def
      verify_conservation_def py_sum_def dict_values_def)

subsection \<open>Transfers from an account to itself\<close>

text \<open>
  Claim C4, amended. In every ledger state with integer balances, a transfer of an integer
  amount whose source and destination are the same account returns normally and leaves the
  balance of that account as it was: the destination update adds the amount to the balance
  the source update has just decreased.
\<close>

theorem self_transfer_no_net_effect:
  "\<exists>self'. record_transfer self description account account amount = Inr self' \<and>
           fst (get_balance self' account) = fst (get_balance self account)"
  for self :: "int ledger"
  by (simp add: record_transfer_effect get_balance_def dict_get_dict_set)

text \<open>
  With float amounts a transfer from an account to itself can change its balance. After
  \<^verbatim>\<open>1.0\<close> has gone from X to A, the balance of A is \<^verbatim>\<open>1.0\<close>; a transfer of
  \<^verbatim>\<open>1e16\<close> from A to A leaves it at 0, since \<^verbatim>\<open>1.0 - 1e16\<close> rounds to
  \<^verbatim>\<open>-1e16\<close>.
\<close>

theorem float_self_transfer_changes_balance:
  "record_transfers DoubleEntryLedger [(''in'', ''X'', ''A'', float_of_int 1)] =
     Inr \<lparr>transactions =
            [\<lparr>t_description = ''in'', t_from = ''X'', t_to = ''A'',
              t_amount = float_of_int 1\<rparr>],
          balances = [(''X'', float_of_int (- 1)), (''A'', float_of_int 1)]\<rparr> \<and>
   fst (get_balance
     \<lparr>transactions =
        [\<lparr>t_description = ''in'', t_from = ''X'', t_to = ''A'',
          t_amount = float_of_int 1\<rparr>],
      balances = [(''X'', float_of_int (- 1)), (''A'', float_of_int 1)]\<rparr> ''A'') =
     float_of_int 1 \<and>
   record_transfer
     \<lparr>transactions =
        [\<lparr>t_description = ''in'', t_from = ''X'', t_to = ''A'',
          t_amount = float_of_int 1\<rparr>],
      balances = [(''X'', float_of_int (- 1)), (''A'', float_of_int 1)]\<rparr>
     ''same'' ''A'' ''A'' (float_of_int (10 ^ 16)) =
     Inr \<lparr>transactions =
            [\<lparr>t_description = ''in'', t_from = ''X'', t_to = ''A'',
              t_amount = float_of_int 1\<rparr>,
             \<lparr>t_description = ''same'', t_from = ''A'', t_to = ''A'',
              t_amount = float_of_int (10 ^ 16)\<rparr>],
          balances = [(''X'', float_of_int (- 1)), (''A'', 0)]\<rparr> \<and>
   fst (get_balance
     \<lparr>transactions =
        [\<lparr>t_description = ''in'', t_from = ''X'', t_to = ''A'',
          t_amount = float_of_int 1\<rparr>,
         \<lparr>t_description = ''same'', t_from = ''A'', t_to = ''A'',
          t_amount = float_of_int (10 ^ 16)\<rparr>],
      balances = [(''X'', float_of_int (- 1)), (''A'', 0)]\<rparr> ''A'') = 0 \<and>
   float_of_int 1 \<noteq> (0 :: pyfloat)"
  by code_simp

subsection \<open>What one call changes\<close>

text \<open>
  Claim C5, amended. Every call appends exactly one record, with the four arguments as
  given, and leaves the earlier records as they were, so that after any sequence of calls
  the history is the old one followed by one record per call, and its length on a fresh
  ledger is the number of calls. The call updates the balance entries of
  \<^verbatim>\<open>from_account\<close> and \<^verbatim>\<open>to_account\<close>, which are two entries when the two accounts
  differ and a single entry when they are the same account: the keys of the dictionary
  after the call are the keys before it and these two accounts. The entry of every other
  account, present or absent, and its balance are unchanged. This holds for amounts of
  any type.
\<close>

theorem record_transfer_frame:
  "(\<exists>self'. record_transfer self description from_account to_account amount = Inr self' \<and>
      transactions self' = transactions self @
        [\<lparr>t_description = description, t_from = from_account,
          t_to = to_account, t_amount = amount\<rparr>] \<and>
      set (dict_keys (balances self')) =
        set (dict_keys (balances self)) \<union> {from_account, to_account} \<and>
      (account \<noteq> from_account \<longrightarrow> account \<noteq> to_account \<longrightarrow>
         dict_getitem (balances self') account = dict_getitem (balances self) account \<and>
         fst (get_balance self' account) = fst (get_balance self account))) \<and>
   (\<exists>self'. record_transfers self calls = Inr self' \<and>
      transactions self' = transactions self @ map call_transaction calls \<and>
      length (transactions self') = length (transactions self) + length calls) \<and>
   (\<exists>self'. record_transfers DoubleEntryLedger calls = Inr self' \<and>
      length (transactions self') = length calls)"
proof -
  obtain s1 where s1: "record_transfer self description from_account to_account amount = Inr s1"
    using record_transfer_returns by blast
  obtain s2 where s2: "record_transfers self calls = Inr s2"
    using record_transfers_total by blast
  obtain s3 where s3: "record_transfers DoubleEntryLedger calls = Inr s3"
    using record_transfers_total by blast
  have "transactions s3 = map call_transaction calls"
    using record_transfers_transactions [OF s3] by (simp add: DoubleEntryLedger_def)
  then have "length (transactions s3) = length calls" by simp
  with s1 s2 s3 show ?thesis
    using record_transfer_transactions [OF s1] record_transfer_other [OF s1, of account]
      record_transfer_keys [OF s1] record_transfers_transactions [OF s2]
    by (simp add: get_balance_def)
qed

text \<open>
  A witness: on a fresh ledger with integer amounts, a transfer of 5 from A to B leaves
  C, which is neither, without an entry as before, and the keys are A and B.
\<close>

theorem record_transfer_frame_witness:
  "''C'' \<noteq> ''A'' \<and> ''C'' \<noteq> ''B'' \<and>
   (\<exists>self'. record_transfer (DoubleEntryLedger :: int ledger) ''move'' ''A'' ''B'' 5 = Inr self' \<and>
      set (dict_keys (balances self')) = {''A'', ''B''} \<and>
      dict_getitem (balances self') ''C'' = Inl (KeyError ''C'') \<and>
      fst (get_balance self' ''C'') = 0)"
  using record_transfer_frame
    [of "DoubleEntryLedger :: int ledger" "''move''" "''A''" "''B''" 5 "''C''" "[]"]
  by (auto simp: DoubleEntryLedger_def get_balance_def dict_keys_def)

text \<open>
  The count of two entries fails for a transfer from an account to itself. On a fresh
  ledger, whose balance dictionary is empty, such a call leaves a dictionary with the
  single entry of that account: one entry has been written, not two.
\<close>

theorem self_transfer_writes_one_entry:
  "balances (DoubleEntryLedger :: int ledger) = [] \<and>
   record_transfer (DoubleEntryLedger :: int ledger) ''same'' ''A'' ''A'' 5 =
     Inr \<lparr>transactions =
            [\<lparr>t_description = ''same'', t_from = ''A'', t_to = ''A'', t_amount = 5\<rparr>],
          balances = [(''A'', 0)]\<rparr> \<and>
   length (dict_keys [(''A'', 0::int)]) = 1"
  by (simp add: record_transfer_effect DoubleEntryLedger_def dict_keys_def)

subsection \<open>No input is rejected\<close>


subsection \<open>Reading a balance\<close>

text \<open>
  Claim C7. In every ledger reached from a fresh one, whatever the type of its amounts,
  \<^verbatim>\<open>get_balance\<close> returns 0 for an
  account that no recorded transfer names as its source or its destination. In every
  ledger state whatever, \<^verbatim>\<open>get_balance\<close> leaves the ledger (history and balances) as it
  found it.
\<close>

theorem get_balance_unreferenced_and_pure:
  "\<exists>self. record_transfers DoubleEntryLedger calls = Inr self \<and>
     ((\<forall>t \<in> set (transactions self). t_from t \<noteq> account \<and> t_to t \<noteq> account) \<longrightarrow>
        fst (get_balance self account) = 0) \<and>
     snd (get_balance any_ledger any_account) = any_ledger"
proof -
  obtain self where self: "record_transfers DoubleEntryLedger calls = Inr self"
    using record_transfers_total by blast
  have "fst (get_balance self account) = 0"
    if "\<forall>t \<in> set (transactions self). t_from t \<noteq> account \<and> t_to t \<noteq> account"
  proof -
    have "account \<notin> set (referenced (transactions self))"
      using that by (auto simp: set_referenced)
    then have "account \<notin> set (dict_keys (balances self))"
      using reachable_keys [OF self] by (simp add: set_first_seen)
    then show ?thesis
      by (simp add: get_balance_def dict_get_absent)
  qed
  then show ?thesis
    using self by (simp add: get_balance_def)
qed

text \<open>
  A witness: the fill of 100 from Reservoir to TankA is the only recorded transfer and
  names Pump neither as source nor as destination; the balance of Pump in the ledger it
  leaves is 0.
\<close>

theorem get_balance_unreferenced_and_pure_witness:
  "t_from \<lparr>t_description = ''fill'', t_from = ''Reservoir'',
            t_to = ''TankA'', t_amount = 100 :: int\<rparr> \<noteq> ''Pump'' \<and>
   t_to \<lparr>t_description = ''fill'', t_from = ''Reservoir'',
          t_to = ''TankA'', t_amount = 100 :: int\<rparr> \<noteq> ''Pump'' \<and>
   record_transfers (DoubleEntryLedger :: int ledger)
       [(''fill'', ''Reservoir'', ''TankA'', 100)] =
     Inr \<lparr>transactions = [\<lparr>t_description = ''fill'', t_from = ''Reservoir'',
                               t_to = ''TankA'', t_amount = 100\<rparr>],
          balances = [(''Reservoir'', - 100), (''TankA'', 100)]\<rparr> \<and>
   fst (get_balance
     \<lparr>transactions = [\<lparr>t_description = ''fill'', t_from = ''Reservoir'',
                        t_to = ''TankA'', t_amount = 100\<rparr>],
      balances = [(''Reservoir'', - 100), (''TankA'', 100)]\<rparr> ''Pump'') = 0"
  using get_balance_unreferenced_and_pure
    [of "[(''fill'', ''Reservoir'', ''TankA'', 100 :: int)]" "''Pump''"]
  by (simp add: record_transfer_effect DoubleEntryLedger_def get_balance_def)

subsection \<open>Enumeration order\<close>

text \<open>
  Claim C8. In every ledger reached from a fresh one, whatever the type of its amounts,
  the loop of \<^verbatim>\<open>print_balances\<close>
  over \<^verbatim>\<open>self.balances.items()\<close> visits the accounts in first-seen order: each account
  named by the history once, at the place of its first mention, the source of a transfer
  counting as mentioned before its destination. Account \<open>X\<close> comes before account \<open>Y\<close> in
  the enumeration exactly when its first mention comes before the first mention of \<open>Y\<close>.
\<close>

theorem enumeration_in_first_seen_order:
  "\<exists>self. record_transfers DoubleEntryLedger calls = Inr self \<and>
     map fst (fst (print_balances self)) = first_seen (referenced (transactions self)) \<and>
     distinct (map fst (fst (print_balances self))) \<and>
     set (map fst (fst (print_balances self))) = set (referenced (transactions self)) \<and>
     (first_index (map fst (fst (print_balances self))) X
        < first_index (map fst (fst (print_balances self))) Y) =
     (first_index (referenced (transactions self)) X
        < first_index (referenced (transactions self)) Y)"
proof -
  obtain self where self: "record_transfers DoubleEntryLedger calls = Inr self"
    using record_transfers_total by blast
  have keys: "map fst (fst (print_balances self)) = first_seen (referenced (transactions self))"
    using reachable_keys [OF self] by (simp add: print_balances_keys)
  show ?thesis
  proof (intro exI conjI)
    show "record_transfers DoubleEntryLedger calls = Inr self"
      by (rule self)
    show "map fst (fst (print_balances self)) = first_seen (referenced (transactions self))"
      by (rule keys)
    show "distinct (map fst (fst (print_balances self)))"
      unfolding keys by (rule distinct_first_seen)
    show "set (map fst (fst (print_balances self))) = set (referenced (transactions self))"
      unfolding keys by (rule set_first_seen)
    show "(first_index (map fst (fst (print_balances self))) X
          < first_index (map fst (fst (print_balances self))) Y) =
       (first_index (referenced (transactions self)) X
          < first_index (referenced (transactions self)) Y)"
      unfolding keys by (rule first_index_first_seen)
  qed
qed

subsection \<open>Negative amounts\<close>

text \<open>
  Claim C9. In every ledger state, for distinct accounts \<open>A\<close> and \<open>B\<close> and every integer
  amount \<open>x\<close>, the transfer of \<open>- x\<close> from \<open>A\<close> to \<open>B\<close> and the transfer of \<open>x\<close> from \<open>B\<close> to \<open>A\<close>
  both return normally and leave every account with the same balance, as
  \<^verbatim>\<open>get_balance\<close> reports it.
\<close>

theorem negative_amount_inverts_direction:
  "A \<noteq> B \<Longrightarrow>
   \<exists>s1 s2. record_transfer self description A B (- x) = Inr s1 \<and>
           record_transfer self description B A x = Inr s2 \<and>
           fst (get_balance s1 account) = fst (get_balance s2 account)"
  for self :: "int ledger"
  by (simp add: record_transfer_effect get_balance_def dict_get_dict_set)

text \<open>
  A witness: on a fresh ledger, TankA holds the same balance after a transfer of -30 from
  TankA to TankB as after a transfer of 30 from TankB to TankA.
\<close>

theorem negative_amount_inverts_direction_witness:
  "''TankA'' \<noteq> ''TankB'' \<and>
   (\<exists>s1 s2.
      record_transfer (DoubleEntryLedger :: int ledger) ''back'' ''TankA'' ''TankB'' (- 30) =
        Inr s1 \<and>
      record_transfer (DoubleEntryLedger :: int ledger) ''back'' ''TankB'' ''TankA'' 30 =
        Inr s2 \<and>
            fst (get_balance s1 ''TankA'') = fst (get_balance s2 ''TankA''))"
  using negative_amount_inverts_direction
    [of "''TankA''" "''TankB''" "DoubleEntryLedger :: int ledger" "''back''" 30 "''TankA''"]
  by simp

subsection \<open>Balance entries are never removed\<close>

text \<open>
  Claim C10, amended. The keys of the balance dictionary only grow: after any sequence
  of calls on any ledger every key it had is still a key, and \<^verbatim>\<open>get_balance\<close>,
  \<^verbatim>\<open>print_balances\<close> and \<^verbatim>\<open>verify_conservation\<close> leave the ledger as it was. In a
  ledger reached from a fresh one, the enumeration lists an account exactly when some
  recorded transfer names it, with the balance \<^verbatim>\<open>get_balance\<close> reports, whatever that
  balance is. So an account whose balance has come back to 0 is listed, with 0, and an
  account never named is not listed: the enumeration tells the two apart, and it is
  \<^verbatim>\<open>get_balance\<close> that does not, returning 0 for both.
\<close>

theorem balance_entries_never_removed:
  "(\<exists>self'. record_transfers self calls = Inr self' \<and>
      set (dict_keys (balances self)) \<subseteq> set (dict_keys (balances self'))) \<and>
   snd (get_balance self account) = self \<and>
   snd (print_balances self) = self \<and>
   snd (verify_conservation self) = self \<and>
   (\<exists>self'. record_transfers DoubleEntryLedger calls = Inr self' \<and>
      (account \<in> set (map fst (fst (print_balances self')))) =
        (account \<in> set (referenced (transactions self'))) \<and>
      ((account, fst (get_balance self' account)) \<in> set (fst (print_balances self'))) =
        (account \<in> set (referenced (transactions self'))))"
proof -
  obtain s1 where s1: "record_transfers self calls = Inr s1"
    using record_transfers_total by blast
  obtain s2 where s2: "record_transfers DoubleEntryLedger calls = Inr s2"
    using record_transfers_total by blast
  have keys: "set (dict_keys (balances s2)) = set (referenced (transactions s2))"
    using reachable_keys [OF s2] by (simp add: set_first_seen)
  have "(account \<in> set (map fst (fst (print_balances s2)))) =
        (account \<in> set (referenced (transactions s2)))"
    using keys by (simp add: print_balances_keys)
  moreover have "((account, fst (get_balance s2 account)) \<in> set (fst (print_balances s2))) =
        (account \<in> set (referenced (transactions s2)))"
    using keys items_get [of account "balances s2" 0]
    by (simp add: print_balances_def dict_items_def get_balance_def)
  ultimately show ?thesis
    using s1 s2 record_transfers_keys_grow [OF s1]
    by (simp add: get_balance_def print_balances_def verify_conservation_def)
qed

text \<open>
  The enumeration does tell an account back at 0 from one never named. After 5 has gone
  from A to B and back, the enumeration lists A with balance 0; C, which no transfer
  names, is not listed; \<^verbatim>\<open>get_balance\<close> returns 0 for both.
\<close>

theorem enumeration_tells_zero_from_absent:
  "record_transfers (DoubleEntryLedger :: int ledger)
     [(''out'', ''A'', ''B'', 5), (''back'', ''B'', ''A'', 5)] =
     Inr \<lparr>transactions =
            [\<lparr>t_description = ''out'', t_from = ''A'', t_to = ''B'', t_amount = 5\<rparr>,
             \<lparr>t_description = ''back'', t_from = ''B'', t_to = ''A'', t_amount = 5\<rparr>],
          balances = [(''A'', 0), (''B'', 0)]\<rparr> \<and>
   fst (print_balances
     \<lparr>transactions =
        [\<lparr>t_description = ''out'', t_from = ''A'', t_to = ''B'', t_amount = 5\<rparr>,
         \<lparr>t_description = ''back'', t_from = ''B'', t_to = ''A'', t_amount = 5\<rparr>],
      balances = [(''A'', 0), (''B'', 0)]\<rparr>) = [(''A'', 0), (''B'', 0)] \<and>
   fst (get_balance
     \<lparr>transactions =
        [\<lparr>t_description = ''out'', t_from = ''A'', t_to = ''B'', t_amount = 5\<rparr>,
         \<lparr>t_description = ''back'', t_from = ''B'', t_to = ''A'', t_amount = 5\<rparr>],
      balances = [(''A'', 0), (''B'', 0)]\<rparr> ''A'') = 0 \<and>
   fst (get_balance
     \<lparr>transactions =
        [\<lparr>t_description = ''out'', t_from = ''A'', t_to = ''B'', t_amount = 5\<rparr>,
         \<lparr>t_description = ''back'', t_from = ''B'', t_to = ''A'', t_amount = 5\<rparr>],
      balances = [(''A'', 0), (''B'', 0)]\<rparr> ''C'') = 0 \<and>
   ''A'' \<in> set (map fst [(''A'', 0::int), (''B'', 0)]) \<and>
   ''C'' \<notin> set (map fst [(''A'', 0::int), (''B'', 0)])"
  by (simp add: record_transfer_effect DoubleEntryLedger_def print_balances_def
      dict_items_def get_balance_def)

end
